theory Spec2Isabelle
  imports Complex_Main "HOL-Library.Multiset"
begin

section \<open>JavaScript strings and numbers, as far as the build flow uses them\<close>

text \<open>
  Strings are \<open>string\<close> (lists of 8-bit characters, i.e. the Latin-1 range of
  JavaScript's UTF-16 code units). Of ECMAScript's white space and line terminators,
  the ones in that range are TAB, LF, VT, FF, CR, SPACE and NBSP; \<open>trim\<close> and
  \<open>parseInt\<close> both skip exactly these.
\<close>

definition is_whitespace :: "char \<Rightarrow> bool" where
  "is_whitespace c \<longleftrightarrow>
     c \<in> {CHR 0x09, CHR 0x0A, CHR 0x0B, CHR 0x0C, CHR 0x0D, CHR 0x20, CHR 0xA0}"

text \<open>\<open>String.prototype.trim\<close>: drop white space at both ends.\<close>

definition trim :: "string \<Rightarrow> string" where
  "trim s = rev (dropWhile is_whitespace (rev (dropWhile is_whitespace s)))"

text \<open>
  Truthiness of the values the components test with \<open>if (x)\<close>, \<open>!x\<close> and \<open>x || y\<close>:
  an optional string is falsy when it is absent or empty, an optional number when it
  is absent (\<open>undefined\<close>, \<open>null\<close>, \<open>NaN\<close>) or zero.
\<close>

definition truthy_str :: "string option \<Rightarrow> bool" where
  "truthy_str x = (case x of None \<Rightarrow> False | Some s \<Rightarrow> s \<noteq> [])"

definition truthy_num :: "int option \<Rightarrow> bool" where
  "truthy_num x = (case x of None \<Rightarrow> False | Some n \<Rightarrow> n \<noteq> 0)"

text \<open>\<open>a || b\<close> on an optional string \<open>a\<close> with a string default \<open>b\<close>.\<close>

definition str_or :: "string option \<Rightarrow> string \<Rightarrow> string" where
  "str_or a b = (if truthy_str a then (case a of Some s \<Rightarrow> s | None \<Rightarrow> b) else b)"

text \<open>\<open>a || b\<close> on an optional number \<open>a\<close> with a number default \<open>b\<close>.\<close>

definition num_or :: "int option \<Rightarrow> int \<Rightarrow> int" where
  "num_or a b = (if truthy_num a then (case a of Some n \<Rightarrow> n | None \<Rightarrow> b) else b)"

subsection \<open>\<open>Number.prototype.toString\<close> on integer identifiers\<close>

text \<open>
  Identifiers (dataset, model and project ids) are integers; they are modelled as
  unbounded \<open>int\<close>, so the rounding of doubles beyond \<open>2^53\<close> and the exponent notation
  from \<open>10^21\<close> on are outside the model.
\<close>

definition digit_char :: "nat \<Rightarrow> char" where
  "digit_char d = ''0123456789'' ! (d mod 10)"

fun digits :: "nat \<Rightarrow> string" where
  "digits n = (if n < 10 then [digit_char n] else digits (n div 10) @ [digit_char (n mod 10)])"

declare digits.simps [simp del]

definition number_toString :: "int \<Rightarrow> string" where
  "number_toString n = (if n < 0 then CHR ''-'' # digits (nat (- n)) else digits (nat n))"

subsection \<open>\<open>parseInt\<close> with no radix argument\<close>

text \<open>
  ECMAScript \<open>parseInt(string)\<close>: skip leading white space, read an optional sign, switch
  to radix 16 after a \<open>0x\<close>/\<open>0X\<close> prefix, read the longest prefix of digits of the radix;
  no digit at all gives \<open>NaN\<close>, which is \<open>None\<close> here.
\<close>

definition digit_table :: "(char \<times> nat) list" where
  "digit_table =
     [(CHR ''0'', 0), (CHR ''1'', 1), (CHR ''2'', 2), (CHR ''3'', 3),
      (CHR ''4'', 4), (CHR ''5'', 5), (CHR ''6'', 6), (CHR ''7'', 7),
      (CHR ''8'', 8), (CHR ''9'', 9), (CHR ''a'', 10), (CHR ''b'', 11),
      (CHR ''c'', 12), (CHR ''d'', 13), (CHR ''e'', 14), (CHR ''f'', 15),
      (CHR ''A'', 10), (CHR ''B'', 11), (CHR ''C'', 12), (CHR ''D'', 13),
      (CHR ''E'', 14), (CHR ''F'', 15)]"

definition digit_value :: "char \<Rightarrow> nat option" where
  "digit_value c = map_of digit_table c"

definition is_digit :: "nat \<Rightarrow> char \<Rightarrow> bool" where
  "is_digit radix c = (case digit_value c of None \<Rightarrow> False | Some d \<Rightarrow> d < radix)"

definition digit_of :: "char \<Rightarrow> nat" where
  "digit_of c = (case digit_value c of None \<Rightarrow> 0 | Some d \<Rightarrow> d)"

definition math_int :: "nat \<Rightarrow> string \<Rightarrow> nat" where
  "math_int radix z = foldl (\<lambda>acc c. acc * radix + digit_of c) 0 z"

definition parse_digits :: "nat \<Rightarrow> string \<Rightarrow> nat option" where
  "parse_digits radix s =
     (let z = takeWhile (is_digit radix) s
      in if z = [] then None else Some (math_int radix z))"

definition parse_unsigned :: "string \<Rightarrow> nat option" where
  "parse_unsigned s =
     (if take 2 s = ''0x'' \<or> take 2 s = ''0X'' then parse_digits 16 (drop 2 s)
      else parse_digits 10 s)"

definition parseInt :: "string \<Rightarrow> int option" where
  "parseInt str =
     (let s = dropWhile is_whitespace str
      in case s of
           c # rest \<Rightarrow>
             (if c = CHR ''-'' then map_option (\<lambda>n. - int n) (parse_unsigned rest)
              else if c = CHR ''+'' then map_option int (parse_unsigned rest)
              else map_option int (parse_unsigned s))
         | [] \<Rightarrow> None)"

section \<open>Values and objects of the intent payload\<close>

text \<open>
  The intent is typed \<open>any\<close> in the source: a JSON object delivered by the backend.
  Its values are modelled with object identity, since the editor's contract is about
  copying: a value is a primitive or a reference into a store of cells, a cell being
  an object (its own enumerable properties, in insertion order) or an array. The store
  is a list and a reference an index into it, so that allocation appends a cell and
  never changes an existing one. Non-enumerable and inherited properties (such as
  \<open>length\<close>) are not modelled; the editor reads the keys \<open>task\<close>,
  \<open>preprocessing\<close>, \<open>search_space\<close>, \<open>models\<close> and \<open>name\<close> only.
\<close>

type_synonym addr = nat

datatype jsval = Undefined | Null | Bool bool | Num rat | NaN | Str string | Ref addr

type_synonym properties = "(string \<times> jsval) list"

datatype cell = Obj properties | Arr "jsval list"

type_synonym heap = "cell list"

datatype js_type_error = TypeError

definition truthy :: "jsval \<Rightarrow> bool" where
  "truthy v = (case v of Undefined \<Rightarrow> False | Null \<Rightarrow> False | Bool b \<Rightarrow> b
     | Num r \<Rightarrow> r \<noteq> 0 | NaN \<Rightarrow> False | Str s \<Rightarrow> s \<noteq> [] | Ref a \<Rightarrow> True)"

definition alloc :: "heap \<Rightarrow> cell \<Rightarrow> heap \<times> jsval" where
  "alloc h c = (h @ [c], Ref (length h))"

definition cell_at :: "heap \<Rightarrow> addr \<Rightarrow> cell option" where
  "cell_at h a = (if a < length h then Some (h ! a) else None)"

text \<open>The index keys \<open>"0"\<close>, \<open>"1"\<close>, ... of an array or a string.\<close>

definition index_props :: "jsval list \<Rightarrow> properties" where
  "index_props xs = zip (map digits [0..<length xs]) xs"

text \<open>
  The own enumerable properties of a value, which is what the object spread
  \<open>{...v}\<close> copies: nothing for \<open>undefined\<close>, \<open>null\<close>, booleans and numbers.
\<close>

definition own_props :: "heap \<Rightarrow> jsval \<Rightarrow> properties" where
  "own_props h v =
     (case v of
        Ref a \<Rightarrow> (case cell_at h a of
                    Some (Obj ps) \<Rightarrow> ps
                  | Some (Arr xs) \<Rightarrow> index_props xs
                  | None \<Rightarrow> [])
      | Str s \<Rightarrow> index_props (map (\<lambda>c. Str [c]) s)
      | _ \<Rightarrow> [])"

text \<open>The value of property \<open>k\<close> in a property list, \<open>undefined\<close> when it is not there.\<close>

definition prop_value :: "properties \<Rightarrow> string \<Rightarrow> jsval" where
  "prop_value ps k = (case map_of ps k of None \<Rightarrow> Undefined | Some x \<Rightarrow> x)"

text \<open>Property read \<open>v.k\<close>: a \<open>TypeError\<close> on \<open>undefined\<close> and \<open>null\<close>.\<close>

definition get_prop :: "heap \<Rightarrow> jsval \<Rightarrow> string \<Rightarrow> js_type_error + jsval" where
  "get_prop h v k =
     (case v of
        Undefined \<Rightarrow> Inl TypeError
      | Null \<Rightarrow> Inl TypeError
      | _ \<Rightarrow> Inr (prop_value (own_props h v) k))"

text \<open>
  A property \<open>k: v\<close> written after a spread in an object literal: it replaces the
  copied property of that name, keeping its position, or is added at the end.
\<close>

fun set_prop :: "properties \<Rightarrow> string \<Rightarrow> jsval \<Rightarrow> properties" where
  "set_prop [] k v = [(k, v)]"
| "set_prop ((k', v') # ps) k v =
     (if k' = k then (k, v) # ps else (k', v') # set_prop ps k v)"

text \<open>\<open>v || {}\<close> and \<open>v || []\<close>: a fresh empty object or array when \<open>v\<close> is falsy.\<close>

definition or_empty_object :: "heap \<Rightarrow> jsval \<Rightarrow> heap \<times> jsval" where
  "or_empty_object h v = (if truthy v then (h, v) else alloc h (Obj []))"

definition or_empty_array :: "heap \<Rightarrow> jsval \<Rightarrow> heap \<times> jsval" where
  "or_empty_array h v = (if truthy v then (h, v) else alloc h (Arr []))"

text \<open>
  The array spread \<open>[...v]\<close>: the elements of an array, the characters of a string,
  and a \<open>TypeError\<close> on every value that is not iterable.
\<close>

definition spread_array :: "heap \<Rightarrow> jsval \<Rightarrow> js_type_error + jsval list" where
  "spread_array h v =
     (case v of
        Ref a \<Rightarrow> (case cell_at h a of Some (Arr xs) \<Rightarrow> Inr xs | _ \<Rightarrow> Inl TypeError)
      | Str s \<Rightarrow> Inr (map (\<lambda>c. Str [c]) s)
      | _ \<Rightarrow> Inl TypeError)"

text \<open>
  \<open>Array.prototype.findIndex\<close>: the first index whose element satisfies the callback,
  \<open>-1\<close> when there is none; an exception of the callback ends the search.
\<close>

fun findIndex :: "('a \<Rightarrow> js_type_error + bool) \<Rightarrow> 'a list \<Rightarrow> js_type_error + int" where
  "findIndex p [] = Inr (- 1)"
| "findIndex p (x # xs) =
     (case p x of
        Inl e \<Rightarrow> Inl e
      | Inr True \<Rightarrow> Inr 0
      | Inr False \<Rightarrow>
          (case findIndex p xs of
             Inl e \<Rightarrow> Inl e
           | Inr i \<Rightarrow> Inr (if 0 \<le> i then i + 1 else - 1)))"

text \<open>\<open>xs.splice(i, 1)\<close> for an index \<open>0 \<le> i\<close>: the array without its element \<open>i\<close>.\<close>

definition splice1 :: "'a list \<Rightarrow> int \<Rightarrow> 'a list" where
  "splice1 xs i = take (nat i) xs @ drop (Suc (nat i)) xs"

section \<open>IntentEditor: the field updates and the model toggle\<close>

text \<open>
  The component receives the intent as a prop and hands every edit to \<open>onChange\<close> as a
  new intent. Each operation below takes the store and the intent and returns the
  store after its allocations together with the value passed to \<open>onChange\<close>.
  The helpers \<open>task\<close>, \<open>preprocessing\<close>, \<open>searchSpace\<close> and \<open>models\<close> computed at
  render time (\<open>intent.task || {}\<close> and so on) are computed inside the operation that
  uses them.
\<close>

definition updateSection ::
  "string \<Rightarrow> heap \<Rightarrow> jsval \<Rightarrow> string \<Rightarrow> jsval \<Rightarrow> js_type_error + (heap \<times> jsval)" where
  "updateSection section h i key val =
     (case get_prop h i section of
        Inl e \<Rightarrow> Inl e
      | Inr t \<Rightarrow>
          let (h1, sec) = or_empty_object h t;
              (h2, new_sec) = alloc h1 (Obj (set_prop (own_props h1 sec) key val));
              (h3, new_intent) = alloc h2 (Obj (set_prop (own_props h2 i) section new_sec))
          in Inr (h3, new_intent))"

text \<open>\<open>onChange({...intent, task: {...task, [key]: value}})\<close>\<close>

definition updateTask ::
  "heap \<Rightarrow> jsval \<Rightarrow> string \<Rightarrow> jsval \<Rightarrow> js_type_error + (heap \<times> jsval)" where
  "updateTask = updateSection ''task''"

text \<open>\<open>onChange({...intent, preprocessing: {...preprocessing, [key]: value}})\<close>\<close>

definition updatePreprocessing ::
  "heap \<Rightarrow> jsval \<Rightarrow> string \<Rightarrow> jsval \<Rightarrow> js_type_error + (heap \<times> jsval)" where
  "updatePreprocessing = updateSection ''preprocessing''"

text \<open>The callback of \<open>findIndex\<close> and \<open>some\<close>: \<open>m.name === modelName\<close>.\<close>

definition name_is :: "heap \<Rightarrow> string \<Rightarrow> jsval \<Rightarrow> js_type_error + bool" where
  "name_is h modelName m =
     (case get_prop h m ''name'' of Inl e \<Rightarrow> Inl e | Inr v \<Rightarrow> Inr (v = Str modelName))"

text \<open>
  The entries the editor works on: \<open>(intent.search_space || {}).models || []\<close>,
  copied by \<open>[...models]\<close>.
\<close>

definition current_models ::
  "heap \<Rightarrow> jsval \<Rightarrow> js_type_error + (heap \<times> jsval \<times> jsval list)" where
  "current_models h i =
     (case get_prop h i ''search_space'' of
        Inl e \<Rightarrow> Inl e
      | Inr ss \<Rightarrow>
          (let (h1, searchSpace) = or_empty_object h ss
           in (case get_prop h1 searchSpace ''models'' of
                 Inl e \<Rightarrow> Inl e
               | Inr ms \<Rightarrow>
                   (let (h2, models) = or_empty_array h1 ms
                    in (case spread_array h2 models of
                          Inl e \<Rightarrow> Inl e
                        | Inr currentModels \<Rightarrow> Inr (h2, searchSpace, currentModels))))))"

definition toggleModel ::
  "heap \<Rightarrow> jsval \<Rightarrow> string \<Rightarrow> js_type_error + (heap \<times> jsval)" where
  "toggleModel h i modelName =
     (case current_models h i of
        Inl e \<Rightarrow> Inl e
      | Inr (h2, searchSpace, currentModels) \<Rightarrow>
          (case findIndex (name_is h2 modelName) currentModels of
             Inl e \<Rightarrow> Inl e
           | Inr existingIndex \<Rightarrow>
               let (h3, newModels) =
                     (if 0 \<le> existingIndex then (h2, splice1 currentModels existingIndex)
                      else let (h', params) = alloc h2 (Obj []);
                               (h'', m) = alloc h' (Obj [(''name'', Str modelName),
                                                         (''params'', params)])
                           in (h'', currentModels @ [m]));
                   (h4, arr) = alloc h3 (Arr newModels);
                   (h5, new_ss) = alloc h4 (Obj (set_prop (own_props h4 searchSpace) ''models'' arr));
                   (h6, new_intent) = alloc h5 (Obj (set_prop (own_props h5 i) ''search_space'' new_ss))
               in Inr (h6, new_intent)))"

section \<open>The records exchanged with the backend\<close>

text \<open>
  The interfaces of \<open>mlBuilderService\<close> and of the API types, with the fields the
  build flow reads or writes. An optional field is an \<open>option\<close>; the intent itself
  is a \<open>jsval\<close> (\<open>Undefined\<close> when the field is missing).
\<close>

record js_file =
  file_name :: string
  file_content :: string

datatype form_value = FormText string | FormFile js_file

type_synonym form_data = "(string \<times> form_value) list"

record dataset =
  ds_id :: int
  ds_project :: int
  ds_name :: string
  ds_upload_date :: string

record ml_model =
  ml_id :: int
  ml_name :: string
  ml_status :: string
  ml_intent :: jsval
  ml_dataset :: "int option"

record validation =
  is_valid :: bool
  warnings :: "string list option"

record experiment_plan =
  task_config :: jsval
  plan_preprocessing :: jsval
  experiments :: "jsval list"

record dataset_info =
  dataset_id :: "int option"
  shape :: "(int \<times> int) option"
  columns :: "string list option"

record intent_response =
  success :: bool
  intent :: jsval
  model_id :: "int option"
  validation :: "validation option"
  experiment_plan :: "experiment_plan option"
  dataset_info :: "dataset_info option"
  raw_prompt :: string
  response_error :: "string option"

record training_request =
  req_intent :: jsval
  req_model_id :: "int option"
  req_dataset_id :: "int option"
  req_project_id :: int
  req_model_name :: string

record experiment_result =
  exp_id :: string
  exp_model :: string
  status :: string
  cv_mean :: "rat option"
  test_score :: "rat option"
  training_time_seconds :: "rat option"

record training_response =
  tr_success :: bool
  training_run_id :: int
  tr_model_id :: int
  total_experiments :: int
  best_experiment_id :: string
  best_score :: rat
  results :: "experiment_result list option"
  tr_error :: "string option"

text \<open>
  A rejected promise or a thrown \<open>Error\<close>, as far as the \<open>catch\<close> blocks look into it:
  \<open>err.response?.data?.error\<close> and \<open>err.message\<close>.
\<close>

record js_error =
  response_data_error :: "string option"
  message :: "string option"

text \<open>\<open>new Error(msg)\<close>\<close>

definition new_Error :: "string \<Rightarrow> js_error" where
  "new_Error msg = \<lparr>response_data_error = None, message = Some msg\<rparr>"

text \<open>\<open>err.response?.data?.error || err.message || fallback\<close>\<close>

definition error_message :: "js_error \<Rightarrow> string \<Rightarrow> string" where
  "error_message err fallback = str_or (response_data_error err) (str_or (message err) fallback)"

text \<open>
  The backend, seen from one handler: what each call of \<open>projectService\<close> and
  \<open>mlBuilderService\<close> answers, \<open>Inl\<close> when the promise is rejected.
\<close>

record backend =
  getModel :: "int \<Rightarrow> js_error + ml_model option"
  getDatasets :: "int option \<Rightarrow> js_error + dataset list"
  uploadDataset :: "form_data \<Rightarrow> js_error + dataset"
  extractIntent :: "string \<Rightarrow> int \<Rightarrow> js_error + intent_response"
  startTraining :: "training_request \<Rightarrow> js_error + training_response"

datatype request =
    GetModel int
  | GetDatasets "int option"
  | UploadDataset form_data
  | ExtractIntent string int
  | StartTraining training_request

section \<open>PromptBuilder: the state of a build session and its handlers\<close>

datatype selection_mode = Upload | Select

record props =
  projectId :: "int option"
  initialModelId :: "int option"

text \<open>
  The \<open>useState\<close> cells of the component (\<open>file\<close> is \<open>file_attached\<close> here, \<open>file\<close>
  being a keyword).
\<close>

record state =
  prompt :: string
  loading :: bool
  trainingLoading :: bool
  error :: string
  file_attached :: "js_file option"
  selectionMode :: selection_mode
  datasets :: "dataset list"
  selectedDatasetId :: string
  intentResult :: "intent_response option"
  trainingResult :: "training_response option"

text \<open>The values given to \<open>useState\<close>: the session of a freshly mounted component.\<close>

definition initial_state :: state where
  "initial_state =
     \<lparr>prompt = [], loading = False, trainingLoading = False, error = [], file_attached = None,
      selectionMode = Upload, datasets = [], selectedDatasetId = [],
      intentResult = None, trainingResult = None\<rparr>"

text \<open>
  A handler is the list of what it does, in order: the state setters it calls and the
  requests it sends. It reads the state of the render it was created in (\<open>s\<close>), and the
  setters take effect on the session in the order of the list.
\<close>

datatype effect =
    SetPrompt string
  | SetLoading bool
  | SetTrainingLoading bool
  | SetError string
  | SetFile "js_file option"
  | SetSelectionMode selection_mode
  | SetDatasets "dataset list"
  | SetSelectedDatasetId string
  | SetIntentResult "intent_response option"
  | SetTrainingResult "training_response option"
  | Call request

fun apply_effect :: "state \<Rightarrow> effect \<Rightarrow> state" where
  "apply_effect s (SetPrompt x) = s\<lparr>prompt := x\<rparr>"
| "apply_effect s (SetLoading x) = s\<lparr>loading := x\<rparr>"
| "apply_effect s (SetTrainingLoading x) = s\<lparr>trainingLoading := x\<rparr>"
| "apply_effect s (SetError x) = s\<lparr>error := x\<rparr>"
| "apply_effect s (SetFile x) = s\<lparr>file_attached := x\<rparr>"
| "apply_effect s (SetSelectionMode x) = s\<lparr>selectionMode := x\<rparr>"
| "apply_effect s (SetDatasets x) = s\<lparr>datasets := x\<rparr>"
| "apply_effect s (SetSelectedDatasetId x) = s\<lparr>selectedDatasetId := x\<rparr>"
| "apply_effect s (SetIntentResult x) = s\<lparr>intentResult := x\<rparr>"
| "apply_effect s (SetTrainingResult x) = s\<lparr>trainingResult := x\<rparr>"
| "apply_effect s (Call r) = s"

definition run :: "state \<Rightarrow> effect list \<Rightarrow> state" where
  "run s effs = foldl apply_effect s effs"

definition calls :: "effect list \<Rightarrow> request list" where
  "calls effs = concat (map (\<lambda>e. case e of Call r \<Rightarrow> [r] | _ \<Rightarrow> []) effs)"

subsection \<open>\<open>loadModel\<close>: resuming a persisted model\<close>

definition rehydrated :: "ml_model \<Rightarrow> intent_response" where
  "rehydrated m =
     \<lparr>success = True, intent = ml_intent m, model_id = Some (ml_id m),
      validation = Some \<lparr>is_valid = True, warnings = None\<rparr>,
      experiment_plan = None,
      dataset_info = Some \<lparr>dataset_id = None, shape = None, columns = None\<rparr>,
      raw_prompt = [], response_error = None\<rparr>"

definition loadModel :: "backend \<Rightarrow> int \<Rightarrow> effect list" where
  "loadModel be ident =
     [SetLoading True, Call (GetModel ident)] @
     (case getModel be ident of
        Inl err \<Rightarrow> [SetError ''Failed to load model details.'']
      | Inr None \<Rightarrow> []
      | Inr (Some m) \<Rightarrow>
          (if truthy (ml_intent m) then [SetIntentResult (Some (rehydrated m))] else []) @
          (case ml_dataset m of
             Some d \<Rightarrow>
               (if d \<noteq> 0
                then [SetSelectionMode Select, SetSelectedDatasetId (number_toString d)]
                else [])
           | None \<Rightarrow> [])) @
     [SetLoading False]"

text \<open>
  The effect run on mount: \<open>if (initialModelId) loadModel(initialModelId)\<close>. The
  dashboard mounts the component anew for every resume, so a resume starts from
  \<open>initial_state\<close>. (The other effect of the component fetches the list of datasets
  for the select box; it sets \<open>datasets\<close> only.)
\<close>

definition on_mount :: "props \<Rightarrow> backend \<Rightarrow> effect list" where
  "on_mount p be =
     (case initialModelId p of
        Some ident \<Rightarrow> (if ident \<noteq> 0 then loadModel be ident else [])
      | None \<Rightarrow> [])"

subsection \<open>\<open>handleSubmit\<close>: dataset resolution and intent extraction\<close>

text \<open>
  Step 1 of the \<open>try\<close> block: the upload, or the parsed selection. The handler gets
  here with a truthy \<open>projectId\<close> only, which \<open>num_or\<close> unpacks for
  \<open>projectId.toString()\<close>.
\<close>

definition upload_form :: "js_file \<Rightarrow> int \<Rightarrow> form_data" where
  "upload_form f pid =
     [(''file_path'', FormFile f),
      (''name'', FormText (takeWhile (\<lambda>c. c \<noteq> CHR ''.'') (file_name f))),
      (''description'', FormText ''Uploaded via Model Builder''),
      (''project'', FormText (number_toString pid))]"

definition selected_id :: "state \<Rightarrow> int option" where
  "selected_id s =
     (if selectedDatasetId s \<noteq> [] then parseInt (selectedDatasetId s) else None)"

definition resolve_dataset ::
  "props \<Rightarrow> backend \<Rightarrow> state \<Rightarrow> effect list \<times> (js_error + int option)" where
  "resolve_dataset p be s =
     (case file_attached s of
        Some f \<Rightarrow>
          (if selectionMode s = Upload then
             (let formData = upload_form f (num_or (projectId p) 0)
              in (case uploadDataset be formData of
                    Inl err \<Rightarrow> ([Call (UploadDataset formData)], Inl err)
                  | Inr uploadedDataset \<Rightarrow>
                      (case getDatasets be (projectId p) of
                         Inl err \<Rightarrow>
                           ([Call (UploadDataset formData), Call (GetDatasets (projectId p))],
                            Inl err)
                       | Inr res \<Rightarrow>
                           ([Call (UploadDataset formData), Call (GetDatasets (projectId p)),
                             SetDatasets res],
                            Inr (Some (ds_id uploadedDataset))))))
           else ([], Inr (selected_id s)))
      | None \<Rightarrow> ([], Inr (selected_id s)))"

text \<open>Step 2: the extraction call and the test of \<open>result.success\<close>.\<close>

definition extract_step ::
  "backend \<Rightarrow> state \<Rightarrow> int \<Rightarrow> effect list \<times> js_error option" where
  "extract_step be s finalDatasetId =
     (case extractIntent be (prompt s) finalDatasetId of
        Inl err \<Rightarrow> ([Call (ExtractIntent (prompt s) finalDatasetId)], Some err)
      | Inr result \<Rightarrow>
          (if \<not> success result
           then ([Call (ExtractIntent (prompt s) finalDatasetId)],
                 Some (new_Error (str_or (response_error result) ''Failed to extract intent'')))
           else ([Call (ExtractIntent (prompt s) finalDatasetId),
                  SetIntentResult (Some result)], None)))"

text \<open>
  The body of the \<open>try\<close> block after the four setters: its effects and the exception
  it ends with, if any. \<open>!finalDatasetId\<close> holds for \<open>null\<close>, \<open>NaN\<close> and \<open>0\<close>.
\<close>

definition submit_try ::
  "props \<Rightarrow> backend \<Rightarrow> state \<Rightarrow> effect list \<times> js_error option" where
  "submit_try p be s =
     (case resolve_dataset p be s of
        (effs, Inl err) \<Rightarrow> (effs, Some err)
      | (effs, Inr finalDatasetId) \<Rightarrow>
          (if \<not> truthy_num finalDatasetId
           then (effs, Some (new_Error ''Failed to resolve dataset ID''))
           else (case extract_step be s (num_or finalDatasetId 0) of
                   (effs2, r) \<Rightarrow> (effs @ effs2, r))))"

definition handleSubmit :: "props \<Rightarrow> backend \<Rightarrow> state \<Rightarrow> effect list" where
  "handleSubmit p be s =
     (if \<not> truthy_num (projectId p)
        then [SetError ''Project context missing. Please refresh the page.'']
      else if trim (prompt s) = []
        then [SetError ''Please enter a prompt'']
      else if selectionMode s = Upload \<and> file_attached s = None
        then [SetError ''Please upload a dataset file'']
      else if selectionMode s = Select \<and> selectedDatasetId s = []
        then [SetError ''Please select a dataset'']
      else
        [SetLoading True, SetError [], SetIntentResult None, SetTrainingResult None] @
        (case submit_try p be s of
           (effs, None) \<Rightarrow> effs
         | (effs, Some err) \<Rightarrow>
             effs @ [SetError (error_message err ''An error occurred. Please try again.'')]) @
        [SetLoading False, SetTrainingLoading False])"

subsection \<open>\<open>handleReset\<close>, and the edits of the review step\<close>

definition handleReset :: "effect list" where
  "handleReset =
     [SetPrompt [], SetFile None, SetIntentResult None, SetTrainingResult None, SetError []]"

text \<open>
  The \<open>onChange\<close> given to the editor:
  \<open>setIntentResult({ ...intentResult, intent: newIntent })\<close>. The editor is rendered
  only while \<open>intentResult\<close> is set.
\<close>

definition onIntentChange :: "state \<Rightarrow> jsval \<Rightarrow> effect list" where
  "onIntentChange s newIntent =
     (case intentResult s of
        Some r \<Rightarrow> [SetIntentResult (Some (r\<lparr>intent := newIntent\<rparr>))]
      | None \<Rightarrow> [])"

text \<open>The Cancel button of the review step: \<open>setIntentResult(null)\<close>.\<close>

definition cancelReview :: "effect list" where
  "cancelReview = [SetIntentResult None]"

subsection \<open>\<open>handleStartTraining\<close>\<close>

text \<open>\<open>intentResult?.intent\<close>\<close>

definition session_intent :: "state \<Rightarrow> jsval" where
  "session_intent s = (case intentResult s of None \<Rightarrow> Undefined | Some r \<Rightarrow> intent r)"

text \<open>\<open>intentResult.dataset_info?.dataset_id\<close>\<close>

definition extracted_dataset_id :: "intent_response \<Rightarrow> int option" where
  "extracted_dataset_id r =
     (case dataset_info r of None \<Rightarrow> None | Some di \<Rightarrow> dataset_id di)"

text \<open>
  The dataset id of the training request; \<open>None\<close> is the \<open>NaN\<close> that \<open>parseInt\<close>
  gives on a selection that does not start with a number.
\<close>

definition training_dataset_id :: "state \<Rightarrow> intent_response \<Rightarrow> int option" where
  "training_dataset_id s r =
     (if selectionMode s = Select \<and> selectedDatasetId s \<noteq> [] then parseInt (selectedDatasetId s)
      else if truthy_num (extracted_dataset_id r) then extracted_dataset_id r
      else Some 1)"

text \<open>
  The request. \<open>now\<close> stands for \<open>new Date().toLocaleString()\<close>, the one input of
  the handler that is neither state nor prop.
\<close>

definition training_request_of :: "props \<Rightarrow> string \<Rightarrow> state \<Rightarrow> intent_response \<Rightarrow> training_request" where
  "training_request_of p now s r =
     \<lparr>req_intent = intent r, req_model_id = model_id r,
      req_dataset_id = training_dataset_id s r,
      req_project_id = num_or (projectId p) 1,
      req_model_name = ''Model - '' @ now\<rparr>"

definition handleStartTraining :: "props \<Rightarrow> backend \<Rightarrow> string \<Rightarrow> state \<Rightarrow> effect list" where
  "handleStartTraining p be now s =
     (case intentResult s of
        None \<Rightarrow> [SetError ''No intent available'']
      | Some r \<Rightarrow>
          (if \<not> truthy (intent r) then [SetError ''No intent available'']
           else
             (let trainingRequest = training_request_of p now s r
              in [SetTrainingLoading True, SetError [], Call (StartTraining trainingRequest)] @
                 (case startTraining be trainingRequest of
                    Inl err \<Rightarrow>
                      [SetError (error_message err ''Failed to start training. Please try again.'')]
                  | Inr result \<Rightarrow> [SetTrainingResult (Some result)]) @
                 [SetTrainingLoading False])))"

subsection \<open>The results table\<close>

text \<open>
  \<open>results.filter(r => r.status === 'completed')
          .sort((a, b) => (b.test_score || 0) - (a.test_score || 0))\<close>.
  Scores arrive as JSON numbers, hence finite; they are modelled as rationals, on which
  the sign of the comparator's difference is the sign of the double difference.
  \<open>Array.prototype.sort\<close> is stable, and with a comparator that is a total preorder
  its result is the one of a stable insertion sort.
\<close>

definition score :: "experiment_result \<Rightarrow> rat" where
  "score r = (case test_score r of None \<Rightarrow> 0 | Some x \<Rightarrow> x)"

definition by_test_score :: "experiment_result \<Rightarrow> experiment_result \<Rightarrow> rat" where
  "by_test_score a b = score b - score a"

fun insert_by :: "('a \<Rightarrow> 'a \<Rightarrow> rat) \<Rightarrow> 'a \<Rightarrow> 'a list \<Rightarrow> 'a list" where
  "insert_by cmp x [] = [x]"
| "insert_by cmp x (y # ys) =
     (if cmp x y \<le> 0 then x # y # ys else y # insert_by cmp x ys)"

definition js_sort :: "('a \<Rightarrow> 'a \<Rightarrow> rat) \<Rightarrow> 'a list \<Rightarrow> 'a list" where
  "js_sort cmp xs = foldr (insert_by cmp) xs []"

definition ranking :: "experiment_result list \<Rightarrow> experiment_result list" where
  "ranking rs = js_sort by_test_score (filter (\<lambda>r. status r = ''completed'') rs)"

definition ranked_ids :: "experiment_result list \<Rightarrow> string list" where
  "ranked_ids rs = map exp_id (ranking rs)"

section \<open>Notions the properties are stated with\<close>

text \<open>
  A dataset selection is complete when a file is attached in upload mode, or a dataset
  id is picked in select mode.
\<close>

definition selection_complete :: "state \<Rightarrow> bool" where
  "selection_complete s =
     (case selectionMode s of
        Upload \<Rightarrow> file_attached s \<noteq> None
      | Select \<Rightarrow> selectedDatasetId s \<noteq> [])"

text \<open>The messages of the guards of \<open>handleSubmit\<close>, set before anything else happens.\<close>

definition input_errors :: "string list" where
  "input_errors =
     [''Project context missing. Please refresh the page.'',
      ''Please enter a prompt'',
      ''Please upload a dataset file'',
      ''Please select a dataset'']"

text \<open>
  Dataset resolution has started when the handler has entered its \<open>try\<close> block, whose
  first statement is \<open>setLoading(true)\<close>.
\<close>

definition starts_resolution :: "effect list \<Rightarrow> bool" where
  "starts_resolution effs = (SetLoading True \<in> set effs)"

text \<open>
  The session after a handler has run to its end on session \<open>s\<close>, when nothing else
  has changed the session in the meantime (the form controls are disabled while a
  handler is in flight).
\<close>

definition after_submit :: "props \<Rightarrow> backend \<Rightarrow> state \<Rightarrow> state" where
  "after_submit p be s = run s (handleSubmit p be s)"

definition after_training :: "props \<Rightarrow> backend \<Rightarrow> string \<Rightarrow> state \<Rightarrow> state" where
  "after_training p be now s = run s (handleStartTraining p be now s)"

definition after_load :: "backend \<Rightarrow> int \<Rightarrow> state \<Rightarrow> state" where
  "after_load be ident s = run s (loadModel be ident)"

text \<open>
  A value is valid in a store when it is a primitive or refers to an allocated cell.
  References that are not valid in \<open>h\<close> are the ones allocated after \<open>h\<close>.
\<close>

definition valid :: "heap \<Rightarrow> jsval \<Rightarrow> bool" where
  "valid h v = (case v of Ref a \<Rightarrow> a < length h | _ \<Rightarrow> True)"

text \<open>
  What \<open>v.k\<close> reads among the own properties of \<open>v\<close>, with \<open>undefined\<close> for a property
  that is not there; on a falsy \<open>v\<close> this is the read \<open>(v || {}).k\<close> of the editor.
\<close>

definition field :: "heap \<Rightarrow> jsval \<Rightarrow> string \<Rightarrow> jsval" where
  "field h v k = prop_value (own_props h v) k"

text \<open>The entries of \<open>search_space.models\<close> as the editor reads them, and their names.\<close>

definition models_of :: "heap \<Rightarrow> jsval \<Rightarrow> jsval list" where
  "models_of h i =
     (case current_models h i of Inl e \<Rightarrow> [] | Inr (h2, searchSpace, ms) \<Rightarrow> ms)"

definition entry_name :: "heap \<Rightarrow> jsval \<Rightarrow> jsval" where
  "entry_name h m = field h m ''name''"

definition model_names :: "heap \<Rightarrow> jsval \<Rightarrow> jsval list" where
  "model_names h i = map (entry_name h) (models_of h i)"


text \<open>Two clicks on the same model: the second toggle works on the result of the first.\<close>

definition toggle_twice :: "heap \<Rightarrow> jsval \<Rightarrow> string \<Rightarrow> js_type_error + (heap \<times> jsval)" where
  "toggle_twice h i modelName =
     (case toggleModel h i modelName of
        Inl e \<Rightarrow> Inl e
      | Inr (h', i') \<Rightarrow> toggleModel h' i' modelName)"

definition names_after :: "js_type_error + (heap \<times> jsval) \<Rightarrow> jsval list option" where
  "names_after r = (case r of Inl e \<Rightarrow> None | Inr (h', i') \<Rightarrow> Some (model_names h' i'))"

section \<open>Example sessions\<close>

text \<open>
  An intent with a task, a preprocessing section and one selected model, as the backend
  delivers it; the intent object is cell 6.
\<close>

definition demo_heap :: heap where
  "demo_heap =
     [Obj [(''type'', Str ''classification''), (''metric'', Str ''accuracy''),
           (''target_column'', Str ''churn''), (''cv_folds'', Num 5)],
      Obj [(''scaling'', Str ''standard''), (''encoding'', Str ''onehot'')],
      Obj [(''n_estimators'', Num 100)],
      Obj [(''name'', Str ''random_forest''), (''params'', Ref 2)],
      Arr [Ref 3],
      Obj [(''models'', Ref 4)],
      Obj [(''task'', Ref 0), (''preprocessing'', Ref 1), (''search_space'', Ref 5)]]"

definition demo_intent :: jsval where
  "demo_intent = Ref 6"

text \<open>An intent that lists the model \<open>svm\<close> twice; the intent object is cell 6.\<close>

definition dup_heap :: heap where
  "dup_heap =
     [Obj [],
      Obj [(''name'', Str ''svm''), (''params'', Ref 0)],
      Obj [],
      Obj [(''name'', Str ''svm''), (''params'', Ref 2)],
      Arr [Ref 1, Ref 3],
      Obj [(''models'', Ref 4)],
      Obj [(''search_space'', Ref 5)]]"

definition dup_intent :: jsval where
  "dup_intent = Ref 6"

definition demo_props :: props where
  "demo_props = \<lparr>projectId = Some 1, initialModelId = None\<rparr>"

definition demo_response :: intent_response where
  "demo_response =
     \<lparr>success = True, intent = demo_intent, model_id = Some 5,
      validation = Some \<lparr>is_valid = True, warnings = Some [''Target column not in dataset'']\<rparr>,
      experiment_plan = None,
      dataset_info = Some \<lparr>dataset_id = Some 3, shape = Some (100, 4), columns = None\<rparr>,
      raw_prompt = ''predict churn'', response_error = None\<rparr>"

definition demo_rejection :: intent_response where
  "demo_rejection =
     \<lparr>success = False, intent = Undefined, model_id = None, validation = None,
      experiment_plan = None, dataset_info = None, raw_prompt = ''predict churn'',
      response_error = Some ''Prompt too vague''\<rparr>"

definition demo_model :: ml_model where
  "demo_model =
     \<lparr>ml_id = 5, ml_name = ''Churn model'', ml_status = ''draft'',
      ml_intent = demo_intent, ml_dataset = Some 12\<rparr>"

definition demo_results :: "experiment_result list" where
  "demo_results =
     [\<lparr>exp_id = ''a'', exp_model = ''random_forest'', status = ''completed'',
       cv_mean = None, test_score = Some (8 / 10), training_time_seconds = None\<rparr>,
      \<lparr>exp_id = ''b'', exp_model = ''svm'', status = ''failed'',
       cv_mean = None, test_score = Some (95 / 100), training_time_seconds = None\<rparr>,
      \<lparr>exp_id = ''c'', exp_model = ''xgboost'', status = ''completed'',
       cv_mean = None, test_score = Some (9 / 10), training_time_seconds = None\<rparr>]"

text \<open>
  Two completed results, one with a negative score (as \<open>r2\<close> can be) and one without a
  score.
\<close>

definition unscored_results :: "experiment_result list" where
  "unscored_results =
     [\<lparr>exp_id = ''neg'', exp_model = ''svm'', status = ''completed'',
       cv_mean = None, test_score = Some (- 1 / 4), training_time_seconds = None\<rparr>,
      \<lparr>exp_id = ''none'', exp_model = ''knn'', status = ''completed'',
       cv_mean = None, test_score = None, training_time_seconds = None\<rparr>]"

definition demo_outcome :: training_response where
  "demo_outcome =
     \<lparr>tr_success = True, training_run_id = 1, tr_model_id = 5, total_experiments = 3,
      best_experiment_id = ''c'', best_score = 9 / 10, results = Some demo_results,
      tr_error = None\<rparr>"

text \<open>
  A backend that accepts the prompt on dataset 7 and rejects it elsewhere, trains
  successfully, and knows the draft model 5.
\<close>

definition demo_backend :: backend where
  "demo_backend =
     \<lparr>getModel = (\<lambda>ident. Inr (if ident = 5 then Some demo_model else None)),
      getDatasets = (\<lambda>pid. Inr []),
      uploadDataset = (\<lambda>fd. Inl (new_Error ''Network Error'')),
      extractIntent = (\<lambda>q d. Inr (if d = 7 then demo_response else demo_rejection)),
      startTraining = (\<lambda>req. Inr demo_outcome)\<rparr>"

text \<open>The same backend with a training endpoint that is down.\<close>

definition failing_backend :: backend where
  "failing_backend = demo_backend\<lparr>startTraining := (\<lambda>req. Inl (new_Error ''Network Error''))\<rparr>"

text \<open>
  A session in review: dataset 7 picked in select mode, the intent extracted on a
  dataset the backend reports as 3.
\<close>

definition demo_session :: state where
  "demo_session =
     initial_state\<lparr>prompt := ''predict churn'', selectionMode := Select,
       selectedDatasetId := ''7'', intentResult := Some demo_response\<rparr>"

text \<open>The session after a successful training, where "Build Another Model" is offered.\<close>

definition demo_completed :: state where
  "demo_completed = demo_session\<lparr>trainingResult := Some demo_outcome\<rparr>"

section \<open>Facts about strings, numbers and effect lists\<close>

text \<open>
  Reading back an identifier that \<open>toString\<close> has written gives the identifier: this is
  what makes \<open>setSelectedDatasetId(model.dataset.toString())\<close> followed by
  \<open>parseInt(selectedDatasetId)\<close> the identity on dataset ids.
\<close>

lemma digit_value_digit_char: "d < 10 \<Longrightarrow> digit_value (digit_char d) = Some d"
proof -
  assume "d < 10"
  then have "d \<in> {0, 1, 2, 3, 4, 5, 6, 7, 8, 9}" by auto
  then show ?thesis
    by (auto simp: digit_char_def digit_value_def digit_table_def)
qed

lemma is_digit_digit_char: "is_digit 10 (digit_char (d mod 10))"
  using digit_value_digit_char [of "d mod 10"] by (simp add: is_digit_def)

lemma digit_of_digit_char: "digit_of (digit_char (d mod 10)) = d mod 10"
  using digit_value_digit_char [of "d mod 10"] by (simp add: digit_of_def)

lemma digit_char_mod: "digit_char (d mod 10) = digit_char d"
  by (simp add: digit_char_def)

lemma digits_nonempty: "digits n \<noteq> []"
  by (subst digits.simps) simp

lemma digits_all_digit: "c \<in> set (digits n) \<Longrightarrow> is_digit 10 c"
proof (induction n rule: digits.induct)
  case (1 n)
  show ?case
  proof (cases "n < 10")
    case True
    with "1.prems" have "c = digit_char n" by (subst (asm) digits.simps) simp
    then show ?thesis using is_digit_digit_char [of n] by (simp add: digit_char_mod)
  next
    case False
    with "1.prems" have "c \<in> set (digits (n div 10)) \<or> c = digit_char (n mod 10)"
      by (subst (asm) digits.simps) auto
    then show ?thesis using "1.IH" False is_digit_digit_char [of n] by auto
  qed
qed

lemma math_int_snoc: "math_int r (z @ [c]) = math_int r z * r + digit_of c"
  by (simp add: math_int_def)

lemma math_int_digits: "math_int 10 (digits n) = n"
proof (induction n rule: digits.induct)
  case (1 n)
  show ?case
  proof (cases "n < 10")
    case True
    then have "digits n = [digit_char n]" by (subst digits.simps) simp
    then show ?thesis using digit_of_digit_char [of n] True
      by (simp add: math_int_def digit_char_mod)
  next
    case False
    then have "digits n = digits (n div 10) @ [digit_char (n mod 10)]"
      by (subst digits.simps) simp
    then show ?thesis using "1.IH" False digit_of_digit_char [of n]
      by (simp add: math_int_snoc)
  qed
qed

lemma parse_digits_digits: "parse_digits 10 (digits n) = Some n"
proof -
  have t: "takeWhile (is_digit 10) (digits n) = digits n"
    by (simp add: digits_all_digit)
  show ?thesis unfolding parse_digits_def Let_def t
    by (simp add: digits_nonempty math_int_digits)
qed

lemma not_digit_x: "\<not> is_digit 10 CHR ''x''" "\<not> is_digit 10 CHR ''X''"
  "\<not> is_digit 10 CHR ''-''" "\<not> is_digit 10 CHR ''+''"
  by (simp_all add: is_digit_def digit_value_def digit_table_def)

lemma digit_not_whitespace: "is_digit 10 c \<Longrightarrow> \<not> is_whitespace c"
  by (auto simp: is_digit_def digit_value_def digit_table_def is_whitespace_def split: if_splits)

lemma parse_unsigned_digits: "parse_unsigned (digits n) = Some n"
proof -
  have "take 2 (digits n) \<noteq> ''0x''"
  proof
    assume "take 2 (digits n) = ''0x''"
    then have "CHR ''x'' \<in> set (take 2 (digits n))" by simp
    then have "CHR ''x'' \<in> set (digits n)" by (rule in_set_takeD)
    then show False using digits_all_digit not_digit_x by blast
  qed
  moreover have "take 2 (digits n) \<noteq> ''0X''"
  proof
    assume "take 2 (digits n) = ''0X''"
    then have "CHR ''X'' \<in> set (take 2 (digits n))" by simp
    then have "CHR ''X'' \<in> set (digits n)" by (rule in_set_takeD)
    then show False using digits_all_digit not_digit_x by blast
  qed
  ultimately show ?thesis by (simp add: parse_unsigned_def parse_digits_digits)
qed

lemma parseInt_digits: "parseInt (digits n) = Some (int n)"
proof -
  obtain c rest where cr: "digits n = c # rest"
    using digits_nonempty [of n] by (cases "digits n") auto
  then have dc: "is_digit 10 c" using digits_all_digit [of c n] by simp
  then have "\<not> is_whitespace c" by (rule digit_not_whitespace)
  then have dw: "dropWhile is_whitespace (digits n) = c # rest" using cr by simp
  from dc have "c \<noteq> CHR ''-''" "c \<noteq> CHR ''+''" using not_digit_x by auto
  then show ?thesis
    using parse_unsigned_digits [of n] by (simp add: parseInt_def dw cr [symmetric]) (simp add: cr)
qed

lemma parseInt_number_toString: "parseInt (number_toString d) = Some d"
proof (cases "d < 0")
  case True
  have "\<not> is_whitespace CHR ''-''" by (simp add: is_whitespace_def)
  then show ?thesis using True parse_unsigned_digits [of "nat (- d)"]
    by (simp add: number_toString_def parseInt_def)
next
  case False
  then show ?thesis using parseInt_digits [of "nat d"] by (simp add: number_toString_def)
qed

lemma number_toString_nonempty: "number_toString d \<noteq> []"
  by (simp add: number_toString_def digits_nonempty)

lemma run_Nil [simp]: "run s [] = s" by (simp add: run_def)
lemma run_Cons [simp]: "run s (e # es) = run (apply_effect s e) es" by (simp add: run_def)
lemma run_append [simp]: "run s (es @ fs) = run (run s es) fs" by (simp add: run_def)
lemma calls_Nil [simp]: "calls [] = []" by (simp add: calls_def)
lemma calls_Cons_Call [simp]: "calls (Call r # es) = r # calls es" by (simp add: calls_def)
lemma calls_append [simp]: "calls (es @ fs) = calls es @ calls fs" by (simp add: calls_def)
lemma calls_Cons_Set [simp]:
  "calls (SetPrompt a # es) = calls es"
  "calls (SetLoading b # es) = calls es"
  "calls (SetTrainingLoading b # es) = calls es"
  "calls (SetError a # es) = calls es"
  "calls (SetFile f # es) = calls es"
  "calls (SetSelectionMode m # es) = calls es"
  "calls (SetDatasets ds # es) = calls es"
  "calls (SetSelectedDatasetId a # es) = calls es"
  "calls (SetIntentResult r # es) = calls es"
  "calls (SetTrainingResult t # es) = calls es"
  by (simp_all add: calls_def)

lemma trim_blank: "trim s = [] \<longleftrightarrow> (\<forall>c\<in>set s. is_whitespace c)"
proof
  assume "trim s = []"
  then have a: "\<forall>c\<in>set (dropWhile is_whitespace s). is_whitespace c"
    by (simp add: trim_def)
  have "dropWhile is_whitespace s = []"
  proof (rule ccontr)
    assume ne: "dropWhile is_whitespace s \<noteq> []"
    then have "\<not> is_whitespace (hd (dropWhile is_whitespace s))"
      by (rule hd_dropWhile)
    moreover from ne have "hd (dropWhile is_whitespace s) \<in> set (dropWhile is_whitespace s)"
      by (rule hd_in_set)
    ultimately show False using a by blast
  qed
  then show "\<forall>c\<in>set s. is_whitespace c" by simp
next
  assume "\<forall>c\<in>set s. is_whitespace c"
  then have e: "dropWhile is_whitespace s = []" by simp
  show "trim s = []" unfolding trim_def e by simp
qed

lemma str_or_nonempty: "b \<noteq> [] \<Longrightarrow> str_or a b \<noteq> []"
  by (auto simp: str_or_def truthy_str_def split: option.splits)

lemma error_message_nonempty: "fb \<noteq> [] \<Longrightarrow> error_message e fb \<noteq> []"
  by (simp add: error_message_def str_or_nonempty)

lemma error_message_new_Error: "msg \<noteq> [] \<Longrightarrow> error_message (new_Error msg) fb = msg"
  by (simp add: error_message_def new_Error_def str_or_def truthy_str_def)

section \<open>Submitting a prompt\<close>

text \<open>Each guard of the handler returns after a single \<open>setError\<close>.\<close>

lemma handleSubmit_rejected:
  assumes "trim (prompt s) = [] \<or> \<not> selection_complete s"
  shows "\<exists>m\<in>set input_errors. handleSubmit p be s = [SetError m]"
  using assms
  by (cases "selectionMode s")
     (auto simp: handleSubmit_def selection_complete_def input_errors_def)

text \<open>
  Conversely, with a project context, a non-blank prompt and a complete selection the
  handler enters its \<open>try\<close> block.
\<close>

lemma handleSubmit_started:
  assumes "truthy_num (projectId p)" and "trim (prompt s) \<noteq> []" and "selection_complete s"
  shows "\<exists>effs. handleSubmit p be s =
           [SetLoading True, SetError [], SetIntentResult None, SetTrainingResult None] @ effs"
proof -
  have "\<not> (selectionMode s = Upload \<and> file_attached s = None)"
    "\<not> (selectionMode s = Select \<and> selectedDatasetId s = [])"
    using assms(3) by (auto simp: selection_complete_def)
  then show ?thesis using assms(1,2) by (simp add: handleSubmit_def)
qed

text \<open>
  Claim C1. \<open>handleSubmit\<close> starts dataset resolution (or sends any request) only if the
  prompt is non-blank after trimming and the selection is complete. On a blank prompt
  and on an incomplete selection its only effect is one \<open>setError\<close> with one of the
  input messages, so the session changes in its \<open>error\<close> field alone, and no request is
  sent. A prompt is blank after trimming exactly when it consists of white space.
\<close>

theorem submit_guard:
  "(starts_resolution (handleSubmit p be s) \<or> calls (handleSubmit p be s) \<noteq> []
      \<longrightarrow> trim (prompt s) \<noteq> [] \<and> selection_complete s)
   \<and> (trim (prompt s) = [] \<or> \<not> selection_complete s
      \<longrightarrow> (\<exists>m\<in>set input_errors. handleSubmit p be s = [SetError m]
               \<and> after_submit p be s = s\<lparr>error := m\<rparr>)
          \<and> calls (handleSubmit p be s) = []
          \<and> \<not> starts_resolution (handleSubmit p be s))
   \<and> (trim (prompt s) = [] \<longleftrightarrow> (\<forall>c\<in>set (prompt s). is_whitespace c))"
proof -
  have rej: "(\<exists>m\<in>set input_errors. handleSubmit p be s = [SetError m]
               \<and> after_submit p be s = s\<lparr>error := m\<rparr>)
          \<and> calls (handleSubmit p be s) = []
          \<and> \<not> starts_resolution (handleSubmit p be s)"
    if "trim (prompt s) = [] \<or> \<not> selection_complete s"
  proof -
    from handleSubmit_rejected [OF that, of p be]
    obtain m where "m \<in> set input_errors" "handleSubmit p be s = [SetError m]" by blast
    then show ?thesis by (auto simp: after_submit_def starts_resolution_def)
  qed
  have only_if: "trim (prompt s) \<noteq> [] \<and> selection_complete s"
    if st: "starts_resolution (handleSubmit p be s) \<or> calls (handleSubmit p be s) \<noteq> []"
  proof (rule ccontr)
    assume "\<not> (trim (prompt s) \<noteq> [] \<and> selection_complete s)"
    then have "trim (prompt s) = [] \<or> \<not> selection_complete s" by simp
    from rej [OF this] have "calls (handleSubmit p be s) = []"
      and "\<not> starts_resolution (handleSubmit p be s)" by simp_all
    with st show False by simp
  qed
  show ?thesis
  proof (intro conjI impI)
    assume "starts_resolution (handleSubmit p be s) \<or> calls (handleSubmit p be s) \<noteq> []"
    then show "trim (prompt s) \<noteq> []" and "selection_complete s"
      using only_if by simp_all
  next
    assume b: "trim (prompt s) = [] \<or> \<not> selection_complete s"
    from rej [OF b] show "\<exists>m\<in>set input_errors. handleSubmit p be s = [SetError m]
               \<and> after_submit p be s = s\<lparr>error := m\<rparr>" by (rule conjunct1)
    from rej [OF b] show "calls (handleSubmit p be s) = []" by simp
    from rej [OF b] show "\<not> starts_resolution (handleSubmit p be s)" by simp
  next
    show "trim (prompt s) = [] \<longleftrightarrow> (\<forall>c\<in>set (prompt s). is_whitespace c)"
      by (rule trim_blank)
  qed
qed

text \<open>
  Both hypotheses are met: a prompt of three spaces is rejected, and the example
  session in select mode is accepted.
\<close>

theorem submit_guard_witness:
  "trim (prompt (initial_state\<lparr>prompt := ''   ''\<rparr>)) = []
   \<and> after_submit demo_props demo_backend (initial_state\<lparr>prompt := ''   ''\<rparr>)
       = initial_state\<lparr>prompt := ''   '', error := ''Please enter a prompt''\<rparr>
   \<and> starts_resolution (handleSubmit demo_props demo_backend demo_session)
   \<and> trim (prompt demo_session) \<noteq> [] \<and> selection_complete demo_session"
proof -
  let ?blank = "initial_state\<lparr>prompt := ''   ''\<rparr>"
  have blank: "trim (prompt ?blank) = []"
    by code_simp
  have eff: "handleSubmit demo_props demo_backend ?blank = [SetError ''Please enter a prompt'']"
    by code_simp
  have started: "starts_resolution (handleSubmit demo_props demo_backend demo_session)"
    by code_simp
  note g = submit_guard [of demo_props demo_backend ?blank]
  from g have "trim (prompt ?blank) = [] \<or> \<not> selection_complete ?blank
      \<longrightarrow> (\<exists>m\<in>set input_errors. handleSubmit demo_props demo_backend ?blank = [SetError m]
               \<and> after_submit demo_props demo_backend ?blank = ?blank\<lparr>error := m\<rparr>)
          \<and> calls (handleSubmit demo_props demo_backend ?blank) = []
          \<and> \<not> starts_resolution (handleSubmit demo_props demo_backend ?blank)"
    by (rule conjunct1 [OF conjunct2])
  from mp [OF this disjI1 [OF blank]]
  obtain m where "handleSubmit demo_props demo_backend ?blank = [SetError m]"
    and "after_submit demo_props demo_backend ?blank = ?blank\<lparr>error := m\<rparr>"
    by (elim conjE bexE)
  with eff have first: "after_submit demo_props demo_backend ?blank
       = initial_state\<lparr>prompt := ''   '', error := ''Please enter a prompt''\<rparr>"
    by simp
  note g' = submit_guard [of demo_props demo_backend demo_session]
  have second: "trim (prompt demo_session) \<noteq> [] \<and> selection_complete demo_session"
    by (rule mp [OF conjunct1 [OF g'] disjI1 [OF started]])
  show ?thesis
    by (intro conjI blank first started conjunct1 [OF second] conjunct2 [OF second])
qed

section \<open>Starting the training\<close>

lemma handleStartTraining_calls:
  assumes "intentResult s = Some r" and "truthy (intent r)"
  shows "calls (handleStartTraining p be now s) = [StartTraining (training_request_of p now s r)]"
  using assms by (simp add: handleStartTraining_def Let_def split: sum.splits)

text \<open>
  Claim C3. When an intent is present, \<open>handleStartTraining\<close> sends exactly one training
  request, and its dataset id is: the parsed selection when the mode is select and a
  dataset is selected (the string is non-empty); otherwise the \<open>dataset_id\<close> of the last
  extraction's \<open>dataset_info\<close> when that is present (truthy: a number other than 0);
  otherwise the default 1. With mode select, selection \<open>"7"\<close> and an extracted id 3 the
  request carries 7.
\<close>

theorem training_dataset_id_order:
  assumes "intentResult s = Some r" and "truthy (intent r)"
  shows "\<exists>req. calls (handleStartTraining p be now s) = [StartTraining req]
     \<and> req_dataset_id req =
         (if selectionMode s = Select \<and> selectedDatasetId s \<noteq> []
            then parseInt (selectedDatasetId s)
          else if truthy_num (extracted_dataset_id r) then extracted_dataset_id r
          else Some 1)
     \<and> (selectionMode s = Select \<and> selectedDatasetId s = ''7''
          \<and> extracted_dataset_id r = Some 3 \<longrightarrow> req_dataset_id req = Some 7)"
proof -
  have seven: "parseInt ''7'' = Some 7" by code_simp
  show ?thesis
    using handleStartTraining_calls [OF assms, of p be now] seven
    by (simp add: training_request_of_def training_dataset_id_def)
qed

text \<open>The example session is the instance of the claim: selection 7, extracted id 3.\<close>

theorem training_dataset_id_order_witness:
  "\<exists>req. calls (handleStartTraining demo_props demo_backend ''now'' demo_session) = [StartTraining req]
     \<and> req_dataset_id req = Some 7 \<and> extracted_dataset_id demo_response = Some 3"
proof -
  have a: "intentResult demo_session = Some demo_response"
    by (simp add: demo_session_def)
  have b: "truthy (intent demo_response)"
    by (simp add: demo_response_def demo_intent_def truthy_def)
  have c: "selectionMode demo_session = Select \<and> selectedDatasetId demo_session = ''7''
             \<and> extracted_dataset_id demo_response = Some 3"
    by (simp add: demo_session_def demo_response_def extracted_dataset_id_def)
  from training_dataset_id_order [OF a b, of demo_props demo_backend "''now''"] c
  show ?thesis by auto
qed

lemma handleStartTraining_failed:
  assumes "intentResult s = Some r" and "truthy (intent r)"
    and "startTraining be (training_request_of p now s r) = Inl err"
  shows "after_training p be now s =
           s\<lparr>trainingLoading := False,
             error := error_message err ''Failed to start training. Please try again.''\<rparr>"
  using assms by (simp add: after_training_def handleStartTraining_def Let_def)

text \<open>
  For the handler a failed call is a rejected promise. A fulfilled one is stored as the
  outcome whatever its \<open>success\<close> field says.
\<close>

lemma handleStartTraining_fulfilled:
  assumes "intentResult s = Some r" and "truthy (intent r)"
    and "startTraining be (training_request_of p now s r) = Inr result"
  shows "after_training p be now s =
           s\<lparr>trainingLoading := False, error := [], trainingResult := Some result\<rparr>"
  using assms by (simp add: after_training_def handleStartTraining_def Let_def)

text \<open>
  Claim C7. When the training call fails (the promise is rejected), the session keeps
  its extraction result, and with it the possibly edited intent, unchanged; no training
  outcome is stored; a non-empty error message is shown; and whatever the backend does
  next, a further confirm-train sends one training request with that same intent and
  no extraction request.
\<close>

theorem failed_training_keeps_intent:
  assumes "intentResult s = Some r" and "truthy (intent r)"
    and "startTraining be (training_request_of p now s r) = Inl err"
  shows "intentResult (after_training p be now s) = Some r
     \<and> trainingResult (after_training p be now s) = trainingResult s
     \<and> error (after_training p be now s)
         = error_message err ''Failed to start training. Please try again.''
     \<and> error (after_training p be now s) \<noteq> []
     \<and> (\<forall>be' now'. \<exists>req.
           calls (handleStartTraining p be' now' (after_training p be now s)) = [StartTraining req]
           \<and> req_intent req = intent r)"
proof -
  let ?s' = "after_training p be now s"
  have s': "?s' = s\<lparr>trainingLoading := False,
             error := error_message err ''Failed to start training. Please try again.''\<rparr>"
    using assms by (rule handleStartTraining_failed)
  have ir: "intentResult ?s' = Some r" using assms(1) by (simp add: s')
  have ne: "error ?s' \<noteq> []" by (simp add: s' error_message_nonempty)
  have retry: "\<exists>req. calls (handleStartTraining p be' now' ?s') = [StartTraining req]
           \<and> req_intent req = intent r" for be' now'
    using handleStartTraining_calls [OF ir assms(2), of p be' now']
    by (simp add: training_request_of_def)
  show ?thesis using ir ne retry by (simp add: s')
qed

text \<open>With the training endpoint down, the example session keeps its intent.\<close>

theorem failed_training_keeps_intent_witness:
  "startTraining failing_backend (training_request_of demo_props ''now'' demo_session demo_response)
     = Inl (new_Error ''Network Error'')
   \<and> intentResult (after_training demo_props failing_backend ''now'' demo_session) = Some demo_response
   \<and> error (after_training demo_props failing_backend ''now'' demo_session) = ''Network Error''"
proof -
  have a: "intentResult demo_session = Some demo_response"
    by (simp add: demo_session_def)
  have b: "truthy (intent demo_response)"
    by (simp add: demo_response_def demo_intent_def truthy_def)
  have c: "startTraining failing_backend (training_request_of demo_props ''now'' demo_session demo_response)
     = Inl (new_Error ''Network Error'')"
    by (simp add: failing_backend_def)
  from failing_backend_def failed_training_keeps_intent [OF a b c] c
  show ?thesis by (simp add: error_message_new_Error)
qed

section \<open>Resetting the session\<close>

text \<open>The example sessions are reached from a fresh session by the handlers.\<close>

lemma demo_completed_reached:
  "after_training demo_props demo_backend now demo_session = demo_completed"
  by (simp add: after_training_def handleStartTraining_def demo_session_def demo_completed_def
      demo_response_def demo_intent_def truthy_def demo_backend_def initial_state_def)

lemma demo_session_reached:
  "after_submit demo_props demo_backend
     (run initial_state [SetPrompt ''predict churn'', SetSelectionMode Select, SetSelectedDatasetId ''7''])
   = demo_session"
  by code_simp

text \<open>
  Claim C4: reset clears the prompt, the dataset selection, the intent and the training
  outcome, and yields a fresh session. \<open>handleReset\<close> does clear the attached file, the
  upload half of the dataset selection, but it has no setter call for the selection
  mode and the selected dataset id: after a training on dataset 7 picked in select
  mode, "Build Another Model" leaves the mode at select and the picked dataset at 7,
  and the session is not the fresh one.
\<close>

theorem reset_keeps_dataset_choice:
  "selectionMode (run demo_completed handleReset) = Select
   \<and> selectedDatasetId (run demo_completed handleReset) = ''7''
   \<and> run demo_completed handleReset \<noteq> initial_state"
  by (simp add: handleReset_def demo_completed_def demo_session_def initial_state_def)

text \<open>
  What the handler does do: it clears the prompt, the attached file, the extraction
  result with its intent, the training outcome and the error message.
\<close>

lemma handleReset_effect:
  "run s handleReset =
     s\<lparr>prompt := [], file_attached := None, intentResult := None, trainingResult := None,
       error := []\<rparr>
   \<and> selectionMode (run s handleReset) = selectionMode s
   \<and> selectedDatasetId (run s handleReset) = selectedDatasetId s"
  by (simp add: handleReset_def)

section \<open>Extraction responses that report a failure\<close>







section \<open>Resuming a persisted model\<close>

lemma loadModel_found:
  assumes "getModel be ident = Inr (Some m)"
  shows "loadModel be ident =
     [SetLoading True, Call (GetModel ident)] @
     (if truthy (ml_intent m) then [SetIntentResult (Some (rehydrated m))] else []) @
     (if truthy_num (ml_dataset m)
      then [SetSelectionMode Select, SetSelectedDatasetId (number_toString (num_or (ml_dataset m) 0))]
      else []) @
     [SetLoading False]"
  using assms
  by (simp add: loadModel_def truthy_num_def num_or_def split: option.splits)

lemma loadModel_calls: "calls (loadModel be ident) = [GetModel ident]"
  by (simp add: loadModel_def split: sum.splits option.splits)

lemma loadModel_trainingResult:
  "trainingResult (after_load be ident s) = trainingResult s"
  by (simp add: after_load_def loadModel_def split: sum.splits option.splits)

text \<open>
  Claim C9. Let the backend answer \<open>getModel\<close> with a model record that carries an
  intent and a dataset id (both truthy, as \<open>loadModel\<close> tests them; dataset ids start
  at 1). Then \<open>loadModel\<close> sends the one request \<open>getModel\<close> and nothing to the intent
  extractor; afterwards the session holds that intent with the model's id and without
  an experiment plan, is in select mode, and has the dataset id selected, written as
  the decimal string that \<open>parseInt\<close> reads back as the id. The training outcome is not
  touched, and on the fresh session of a resume it is empty.
\<close>

theorem resume_populates_session:
  assumes "getModel be ident = Inr (Some m)"
    and "truthy (ml_intent m)"
    and "ml_dataset m = Some d" and "d \<noteq> 0"
  shows "calls (loadModel be ident) = [GetModel ident]
     \<and> intentResult (after_load be ident s) = Some (rehydrated m)
     \<and> intent (rehydrated m) = ml_intent m
     \<and> model_id (rehydrated m) = Some (ml_id m)
     \<and> experiment_plan (rehydrated m) = None
     \<and> selectionMode (after_load be ident s) = Select
     \<and> selectedDatasetId (after_load be ident s) = number_toString d
     \<and> parseInt (selectedDatasetId (after_load be ident s)) = Some d
     \<and> trainingResult (after_load be ident s) = trainingResult s
     \<and> trainingResult (after_load be ident initial_state) = None"
proof -
  have lm: "loadModel be ident =
     [SetLoading True, Call (GetModel ident), SetIntentResult (Some (rehydrated m)),
      SetSelectionMode Select, SetSelectedDatasetId (number_toString d), SetLoading False]"
    using assms by (simp add: loadModel_found truthy_num_def num_or_def)
  have "trainingResult (after_load be ident initial_state) = None"
    by (simp add: loadModel_trainingResult initial_state_def)
  then show ?thesis
    by (simp add: lm after_load_def rehydrated_def parseInt_number_toString)
qed

text \<open>
  The draft model 5 of the example backend carries the example intent and dataset 12;
  mounting the component with \<open>initialModelId = 5\<close> runs \<open>loadModel\<close> on it.
\<close>

theorem resume_populates_session_witness:
  "getModel demo_backend 5 = Inr (Some demo_model)
   \<and> truthy (ml_intent demo_model) \<and> ml_dataset demo_model = Some 12
   \<and> on_mount \<lparr>projectId = Some 1, initialModelId = Some 5\<rparr> demo_backend = loadModel demo_backend 5
   \<and> session_intent (after_load demo_backend 5 initial_state) = demo_intent
   \<and> selectionMode (after_load demo_backend 5 initial_state) = Select
   \<and> selectedDatasetId (after_load demo_backend 5 initial_state) = ''12''
   \<and> trainingResult (after_load demo_backend 5 initial_state) = None"
proof -
  have a: "getModel demo_backend 5 = Inr (Some demo_model)"
    by (simp add: demo_backend_def)
  have b: "truthy (ml_intent demo_model)"
    by (simp add: demo_model_def demo_intent_def truthy_def)
  have c: "ml_dataset demo_model = Some 12" by (simp add: demo_model_def)
  have d: "(12::int) \<noteq> 0" by simp
  have e: "on_mount \<lparr>projectId = Some 1, initialModelId = Some 5\<rparr> demo_backend
             = loadModel demo_backend 5"
    by (simp add: on_mount_def)
  have f: "number_toString 12 = ''12''" by code_simp
  have g: "intent (rehydrated demo_model) = demo_intent"
    by (simp add: rehydrated_def demo_model_def)
  from resume_populates_session [OF a b c d, of initial_state] f g
  have "session_intent (after_load demo_backend 5 initial_state) = demo_intent
     \<and> selectionMode (after_load demo_backend 5 initial_state) = Select
     \<and> selectedDatasetId (after_load demo_backend 5 initial_state) = ''12''
     \<and> trainingResult (after_load demo_backend 5 initial_state) = None"
    by (simp add: session_intent_def initial_state_def)
  with a b c e show ?thesis by simp
qed

lemma handleStartTraining_rehydrated:
  assumes "intentResult s = Some (rehydrated m)" and "truthy (ml_intent m)"
  shows "\<exists>req. calls (handleStartTraining p be now s) = [StartTraining req]
     \<and> req_dataset_id req =
         (if selectionMode s = Select \<and> selectedDatasetId s \<noteq> []
          then parseInt (selectedDatasetId s) else Some 1)"
proof -
  have "truthy (intent (rehydrated m))" using assms(2) by (simp add: rehydrated_def)
  from handleStartTraining_calls [OF assms(1) this, of p be now]
  show ?thesis
    by (simp add: training_request_of_def training_dataset_id_def extracted_dataset_id_def
        rehydrated_def truthy_num_def)
qed

lemma loadModel_intentResult:
  assumes "getModel be ident = Inr (Some m)" and "truthy (ml_intent m)"
  shows "intentResult (after_load be ident s) = Some (rehydrated m)"
  using assms by (simp add: after_load_def loadModel_found)

text \<open>
  Claim C10. Whenever \<open>loadModel\<close> rehydrates a model that has an intent, the stored
  extraction result has \<open>validation = {is_valid: true}\<close> without warnings and an empty
  \<open>dataset_info\<close>, whatever the original extraction said. So no warning of the original
  extraction is there to be shown, no extracted dataset id is there to fall back on,
  and a training started from the resumed session sends the parsed selection when a
  dataset is selected in select mode and the default 1 otherwise.
\<close>

theorem resume_drops_validation_and_dataset_info:
  assumes "getModel be ident = Inr (Some m)" and "truthy (ml_intent m)"
  shows "\<exists>r. intentResult (after_load be ident s) = Some r
     \<and> validation r = Some \<lparr>is_valid = True, warnings = None\<rparr>
     \<and> dataset_info r = Some \<lparr>dataset_id = None, shape = None, columns = None\<rparr>
     \<and> extracted_dataset_id r = None
     \<and> (\<forall>p be' now. \<exists>req.
           calls (handleStartTraining p be' now (after_load be ident s)) = [StartTraining req]
           \<and> req_dataset_id req =
               (if selectionMode (after_load be ident s) = Select
                   \<and> selectedDatasetId (after_load be ident s) \<noteq> []
                then parseInt (selectedDatasetId (after_load be ident s)) else Some 1))"
proof -
  have ir: "intentResult (after_load be ident s) = Some (rehydrated m)"
    using assms by (rule loadModel_intentResult)
  have tr: "\<exists>req. calls (handleStartTraining p be' now (after_load be ident s)) = [StartTraining req]
           \<and> req_dataset_id req =
               (if selectionMode (after_load be ident s) = Select
                   \<and> selectedDatasetId (after_load be ident s) \<noteq> []
                then parseInt (selectedDatasetId (after_load be ident s)) else Some 1)"
    for p be' now
    using ir assms(2) by (rule handleStartTraining_rehydrated)
  have "validation (rehydrated m) = Some \<lparr>is_valid = True, warnings = None\<rparr>"
    "dataset_info (rehydrated m) = Some \<lparr>dataset_id = None, shape = None, columns = None\<rparr>"
    "extracted_dataset_id (rehydrated m) = None"
    by (simp_all add: rehydrated_def extracted_dataset_id_def)
  with ir tr show ?thesis by simp
qed

text \<open>
  The example response had a warning and the extracted dataset id 3; after resuming
  the draft saved from it, neither is in the session, and training uses dataset 12.
\<close>

theorem resume_drops_validation_and_dataset_info_witness:
  "getModel demo_backend 5 = Inr (Some demo_model) \<and> truthy (ml_intent demo_model)
   \<and> extracted_dataset_id demo_response = Some 3
   \<and> (\<exists>r. intentResult (after_load demo_backend 5 initial_state) = Some r
         \<and> validation r = Some \<lparr>is_valid = True, warnings = None\<rparr>
         \<and> extracted_dataset_id r = None)
   \<and> (\<exists>req. calls (handleStartTraining demo_props demo_backend ''now''
                        (after_load demo_backend 5 initial_state)) = [StartTraining req]
         \<and> req_dataset_id req = Some 12)"
proof -
  have a: "getModel demo_backend 5 = Inr (Some demo_model)"
    by (simp add: demo_backend_def)
  have b: "truthy (ml_intent demo_model)"
    by (simp add: demo_model_def demo_intent_def truthy_def)
  have c: "extracted_dataset_id demo_response = Some 3"
    by (simp add: demo_response_def extracted_dataset_id_def)
  have sel: "selectionMode (after_load demo_backend 5 initial_state) = Select"
    "selectedDatasetId (after_load demo_backend 5 initial_state) = ''12''"
    by code_simp+
  have twelve: "parseInt ''12'' = Some 12" by code_simp
  from resume_drops_validation_and_dataset_info [OF a b, of initial_state]
  obtain r where r: "intentResult (after_load demo_backend 5 initial_state) = Some r"
      "validation r = Some \<lparr>is_valid = True, warnings = None\<rparr>"
      "extracted_dataset_id r = None"
    and tr: "\<forall>p be' now. \<exists>req.
           calls (handleStartTraining p be' now (after_load demo_backend 5 initial_state)) = [StartTraining req]
           \<and> req_dataset_id req =
               (if selectionMode (after_load demo_backend 5 initial_state) = Select
                   \<and> selectedDatasetId (after_load demo_backend 5 initial_state) \<noteq> []
                then parseInt (selectedDatasetId (after_load demo_backend 5 initial_state)) else Some 1)"
    by blast
  from tr obtain req where
    "calls (handleStartTraining demo_props demo_backend ''now''
              (after_load demo_backend 5 initial_state)) = [StartTraining req]"
    "req_dataset_id req =
               (if selectionMode (after_load demo_backend 5 initial_state) = Select
                   \<and> selectedDatasetId (after_load demo_backend 5 initial_state) \<noteq> []
                then parseInt (selectedDatasetId (after_load demo_backend 5 initial_state)) else Some 1)"
    by blast
  then have "\<exists>req. calls (handleStartTraining demo_props demo_backend ''now''
                        (after_load demo_backend 5 initial_state)) = [StartTraining req]
         \<and> req_dataset_id req = Some 12"
    by (simp add: sel twelve)
  with a b c r show ?thesis by blast
qed

section \<open>The ranking of the results table\<close>

lemma mset_insert_by: "mset (insert_by cmp x ys) = add_mset x (mset ys)"
  by (induction ys) auto

lemma mset_js_sort: "mset (js_sort cmp xs) = mset xs"
  by (induction xs) (simp_all add: js_sort_def mset_insert_by)

lemma set_insert_by: "set (insert_by cmp x ys) = insert x (set ys)"
  by (induction ys) auto

lemma sorted_insert_by:
  assumes "sorted_wrt (\<lambda>a b. score b \<le> score a) ys"
  shows "sorted_wrt (\<lambda>a b. score b \<le> score a) (insert_by by_test_score x ys)"
  using assms
  by (induction ys) (auto simp: set_insert_by by_test_score_def)

lemma sorted_js_sort: "sorted_wrt (\<lambda>a b. score b \<le> score a) (js_sort by_test_score xs)"
proof (induction xs)
  case Nil
  show ?case by (simp add: js_sort_def)
next
  case (Cons x xs)
  then have "sorted_wrt (\<lambda>a b. score b \<le> score a) (insert_by by_test_score x (js_sort by_test_score xs))"
    by (rule sorted_insert_by)
  then show ?case by (simp add: js_sort_def)
qed

text \<open>Entries of equal score keep the order the backend sent them in.\<close>

lemma filter_insert_by:
  assumes "sorted_wrt (\<lambda>a b. score b \<le> score a) ys"
  shows "filter (\<lambda>r. score r = k) (insert_by by_test_score x ys)
       = filter (\<lambda>r. score r = k) (x # ys)"
  using assms
proof (induction ys)
  case Nil
  show ?case by simp
next
  case (Cons y ys)
  show ?case
  proof (cases "by_test_score x y \<le> 0")
    case True
    then show ?thesis by simp
  next
    case False
    then have lt: "score x < score y" by (simp add: by_test_score_def)
    from Cons.prems have "sorted_wrt (\<lambda>a b. score b \<le> score a) ys" by simp
    then have ih: "filter (\<lambda>r. score r = k) (insert_by by_test_score x ys)
       = filter (\<lambda>r. score r = k) (x # ys)" by (rule Cons.IH)
    show ?thesis
    proof (cases "score x = k")
      case True
      with lt have "score y \<noteq> k" by simp
      with False ih show ?thesis by simp
    next
      case False': False
      with False ih show ?thesis by simp
    qed
  qed
qed

lemma js_sort_stable:
  "filter (\<lambda>r. score r = k) (js_sort by_test_score xs) = filter (\<lambda>r. score r = k) xs"
proof (induction xs)
  case Nil
  show ?case by (simp add: js_sort_def)
next
  case (Cons x xs)
  have "filter (\<lambda>r. score r = k) (insert_by by_test_score x (js_sort by_test_score xs))
       = filter (\<lambda>r. score r = k) (x # js_sort by_test_score xs)"
    using sorted_js_sort by (rule filter_insert_by)
  with Cons show ?case by (simp add: js_sort_def)
qed

text \<open>
  Where a descending order puts an entry without a score: after every entry of positive
  score, before every entry of negative score.
\<close>

lemma sorted_desc_nth:
  assumes "sorted_wrt (\<lambda>a b. score b \<le> score a) xs" and "i < j" and "j < length xs"
  shows "score (xs ! j) \<le> score (xs ! i)"
  using assms by (simp add: sorted_wrt_iff_nth_less)

lemma unscored_rank:
  assumes so: "sorted_wrt (\<lambda>a b. score b \<le> score a) xs"
    and i: "i < length xs" and j: "j < length xs"
    and un: "test_score (xs ! i) = None"
  shows "(0 < score (xs ! j) \<longrightarrow> j < i) \<and> (score (xs ! j) < 0 \<longrightarrow> i < j)"
proof -
  have z: "score (xs ! i) = 0" using un by (simp add: score_def)
  have a: "j < i" if p: "0 < score (xs ! j)"
  proof (rule ccontr)
    assume "\<not> j < i"
    with p z have "i < j" by (cases "i = j") auto
    from sorted_desc_nth [OF so this j] z p show False by simp
  qed
  have b: "i < j" if n: "score (xs ! j) < 0"
  proof (rule ccontr)
    assume "\<not> i < j"
    with n z have "j < i" by (cases "i = j") auto
    from sorted_desc_nth [OF so this i] z n show False by simp
  qed
  from a b show ?thesis by blast
qed

text \<open>
  Claim C2 says that an entry lacking a test score is treated as score 0 and so ranks
  lowest. It is treated as 0, but 0 is not the lowest score: of two completed results,
  one with score \<open>-1/4\<close> and one without a score, the one without is shown first.
\<close>

theorem missing_score_above_negative:
  "ranked_ids unscored_results = [''none'', ''neg'']
   \<and> test_score (ranking unscored_results ! 0) = None
   \<and> test_score (ranking unscored_results ! 1) = Some (- 1 / 4)
   \<and> score (ranking unscored_results ! 1) < score (ranking unscored_results ! 0)"
  by (simp add: ranked_ids_def ranking_def js_sort_def unscored_results_def by_test_score_def
      score_def)

text \<open>
  Claim C2, amended. The table shows exactly the results whose status is \<open>completed\<close>,
  each as often as the backend sent it, in descending order of test score, a missing
  score counting as 0; entries of equal score keep their order. An entry without a
  score therefore comes after every entry with a positive score and before every entry
  with a negative score. For the three results of the claim the ids shown are \<open>c\<close>,
  \<open>a\<close>.
\<close>

theorem ranking_completed_by_score:
  "mset (ranking rs) = mset (filter (\<lambda>r. status r = ''completed'') rs)
   \<and> sorted_wrt (\<lambda>a b. score b \<le> score a) (ranking rs)
   \<and> filter (\<lambda>r. score r = k) (ranking rs)
       = filter (\<lambda>r. score r = k) (filter (\<lambda>r. status r = ''completed'') rs)
   \<and> score (r\<lparr>test_score := None\<rparr>) = 0 \<and> score (r\<lparr>test_score := Some x\<rparr>) = x
   \<and> (\<forall>i j. i < length (ranking rs) \<and> j < length (ranking rs)
          \<and> test_score (ranking rs ! i) = None
        \<longrightarrow> (0 < score (ranking rs ! j) \<longrightarrow> j < i)
            \<and> (score (ranking rs ! j) < 0 \<longrightarrow> i < j))
   \<and> ranked_ids demo_results = [''c'', ''a'']"
proof -
  have ex: "ranked_ids demo_results = [''c'', ''a'']"
    by (simp add: ranked_ids_def ranking_def js_sort_def demo_results_def by_test_score_def
        score_def)
  have sc: "score (r\<lparr>test_score := None\<rparr>) = 0" "score (r\<lparr>test_score := Some x\<rparr>) = x"
    by (simp_all add: score_def)
  have m: "mset (ranking rs) = mset (filter (\<lambda>r. status r = ''completed'') rs)"
    unfolding ranking_def by (rule mset_js_sort)
  have so: "sorted_wrt (\<lambda>a b. score b \<le> score a) (ranking rs)"
    unfolding ranking_def by (rule sorted_js_sort)
  have st: "filter (\<lambda>r. score r = k) (ranking rs)
       = filter (\<lambda>r. score r = k) (filter (\<lambda>r. status r = ''completed'') rs)"
    unfolding ranking_def by (rule js_sort_stable)
  have rk: "\<forall>i j. i < length (ranking rs) \<and> j < length (ranking rs)
          \<and> test_score (ranking rs ! i) = None
        \<longrightarrow> (0 < score (ranking rs ! j) \<longrightarrow> j < i)
            \<and> (score (ranking rs ! j) < 0 \<longrightarrow> i < j)"
    using unscored_rank [OF so] by blast
  show ?thesis
    by (intro conjI m so st sc rk ex)
qed

text \<open>
  The three results of the claim: \<open>b\<close> has the best score but failed. And the two
  results above: the entry without a score is at index 0, the negative one at index 1.
\<close>

theorem ranking_completed_by_score_witness:
  "map exp_id (ranking demo_results) = [''c'', ''a'']
   \<and> map status (ranking demo_results) = [''completed'', ''completed'']
   \<and> mset (ranking demo_results) = mset (filter (\<lambda>r. status r = ''completed'') demo_results)
   \<and> length (ranking unscored_results) = 2
   \<and> test_score (ranking unscored_results ! 0) = None
   \<and> score (ranking unscored_results ! 1) < 0"
proof -
  note w = ranking_completed_by_score [of demo_results 0 "hd demo_results" 0]
  have a: "mset (ranking demo_results)
             = mset (filter (\<lambda>r. status r = ''completed'') demo_results)"
    by (rule conjunct1 [OF w])
  have b: "map exp_id (ranking demo_results) = [''c'', ''a'']"
    using w by (simp add: ranked_ids_def)
  have c: "map status (ranking demo_results) = [''completed'', ''completed'']"
    by (simp add: ranking_def js_sort_def demo_results_def by_test_score_def score_def)
  have l: "length (ranking unscored_results) = 2"
    and t: "test_score (ranking unscored_results ! 0) = None"
    and n: "score (ranking unscored_results ! 1) < 0"
    by (simp_all add: ranking_def js_sort_def unscored_results_def by_test_score_def score_def)
  show ?thesis by (intro conjI a b c l t n)
qed

section \<open>Allocation, and what it leaves alone\<close>

lemma cell_at_append_old: "a < length h \<Longrightarrow> cell_at (h @ cs) a = cell_at h a"
  by (simp add: cell_at_def nth_append)

lemma cell_at_append_new: "cell_at (h @ c # cs) (length h) = Some c"
  by (simp add: cell_at_def)

lemma own_props_append: "valid h v \<Longrightarrow> own_props (h @ cs) v = own_props h v"
  by (cases v) (simp_all add: own_props_def valid_def cell_at_append_old)

lemma field_append: "valid h v \<Longrightarrow> field (h @ cs) v k = field h v k"
  by (simp add: field_def own_props_append)

lemma own_props_new_Obj: "own_props (h @ Obj ps # cs) (Ref (length h)) = ps"
  by (simp add: own_props_def cell_at_append_new)

lemma own_props_falsy: "\<not> truthy v \<Longrightarrow> own_props h v = []"
  by (cases v) (simp_all add: truthy_def own_props_def index_props_def)

lemma map_of_set_prop:
  "map_of (set_prop ps k v) k' = (if k' = k then Some v else map_of ps k')"
  by (induction ps) auto

lemma prop_value_set_prop:
  "prop_value (set_prop ps k v) k' = (if k' = k then v else prop_value ps k')"
  by (simp add: prop_value_def map_of_set_prop)

lemma prop_value_Nil: "prop_value [] k = Undefined"
  by (simp add: prop_value_def)

lemma get_prop_truthy: "truthy v \<Longrightarrow> get_prop h v k = Inr (field h v k)"
  by (cases v) (simp_all add: truthy_def get_prop_def field_def)

lemma own_props_new1: "own_props (h @ [Obj ps]) (Ref (length h)) = ps"
  by (simp add: own_props_def cell_at_def)

lemma own_props_new2: "own_props (h @ [c0, Obj ps]) (Ref (Suc (length h))) = ps"
  by (simp add: own_props_def cell_at_def nth_append)

lemma own_props_new3: "own_props (h @ [c0, c1, Obj ps]) (Ref (Suc (Suc (length h)))) = ps"
  by (simp add: own_props_def cell_at_def nth_append)

lemma own_props_mid2: "own_props (h @ [Obj ps, c1]) (Ref (length h)) = ps"
  by (simp add: own_props_def cell_at_def nth_append)

lemma own_props_mid3: "own_props (h @ [c0, Obj ps, c2]) (Ref (Suc (length h))) = ps"
  by (simp add: own_props_def cell_at_def nth_append)

lemma field_new2: "field (h @ [c0, Obj ps]) (Ref (Suc (length h))) k = prop_value ps k"
  by (simp add: field_def own_props_new2)

lemma field_new3: "field (h @ [c0, c1, Obj ps]) (Ref (Suc (Suc (length h)))) k = prop_value ps k"
  by (simp add: field_def own_props_new3)

lemma field_mid2: "field (h @ [Obj ps, c1]) (Ref (length h)) k = prop_value ps k"
  by (simp add: field_def own_props_mid2)

lemma field_mid3: "field (h @ [c0, Obj ps, c2]) (Ref (Suc (length h))) k = prop_value ps k"
  by (simp add: field_def own_props_mid3)

lemma field_falsy: "\<not> truthy v \<Longrightarrow> field h v k = Undefined"
  by (simp add: field_def own_props_falsy prop_value_def)

section \<open>The field updates of the editor\<close>

text \<open>The result of a field update, cell by cell.\<close>

lemma updateSection_result:
  assumes "truthy i" and "valid h i"
  shows "updateSection sec h i key v =
     (if truthy (field h i sec)
      then Inr (h @ [Obj (set_prop (own_props h (field h i sec)) key v),
                     Obj (set_prop (own_props h i) sec (Ref (length h)))],
                Ref (Suc (length h)))
      else Inr (h @ [Obj [], Obj [(key, v)],
                     Obj (set_prop (own_props h i) sec (Ref (Suc (length h))))],
                Ref (Suc (Suc (length h)))))"
proof (cases "truthy (field h i sec)")
  case True
  have "own_props (h @ [Obj (set_prop (own_props h (field h i sec)) key v)]) i = own_props h i"
    using assms(2) by (rule own_props_append)
  with True assms(1) show ?thesis
    by (simp add: updateSection_def get_prop_truthy or_empty_object_def alloc_def)
next
  case False
  have "own_props ((h @ [Obj []]) @ [Obj [(key, v)]]) i = own_props h i"
    using assms(2) by (simp only: append_assoc own_props_append)
  moreover have "own_props (h @ [Obj []]) (Ref (length h)) = []"
    by (rule own_props_new1)
  ultimately show ?thesis using False assms(1)
    by (simp add: updateSection_def get_prop_truthy or_empty_object_def alloc_def)
qed

lemma updateSection_copy_on_write:
  assumes "truthy i" and "valid h i"
  shows "\<exists>h' i'. updateSection sec h i key v = Inr (h', i')
     \<and> take (length h) h' = h
     \<and> \<not> valid h i' \<and> i' \<noteq> i
     \<and> (\<forall>k. k \<noteq> sec \<longrightarrow> field h' i' k = field h i k)
     \<and> \<not> valid h (field h' i' sec)
     \<and> (\<forall>k. k \<noteq> key \<longrightarrow> field h' (field h' i' sec) k = field h (field h i sec) k)
     \<and> field h' (field h' i' sec) key = v"
proof (cases "truthy (field h i sec)")
  case True
  let ?t = "field h i sec"
  let ?h' = "h @ [Obj (set_prop (own_props h ?t) key v),
                  Obj (set_prop (own_props h i) sec (Ref (length h)))]"
  let ?i' = "Ref (Suc (length h))"
  have res: "updateSection sec h i key v = Inr (?h', ?i')"
    using True by (simp add: updateSection_result [OF assms])
  have fs: "field ?h' ?i' sec = Ref (length h)"
    by (simp add: field_new2 prop_value_set_prop)
  have sib: "field ?h' ?i' k = field h i k" if "k \<noteq> sec" for k
    using that by (simp add: field_new2 prop_value_set_prop) (simp add: field_def)
  have sib2: "field ?h' (field ?h' ?i' sec) k = field h ?t k" if "k \<noteq> key" for k
    unfolding fs using that by (simp add: field_mid2 prop_value_set_prop) (simp add: field_def)
  have new: "field ?h' (field ?h' ?i' sec) key = v"
    unfolding fs by (simp add: field_mid2 prop_value_set_prop)
  have fresh: "\<not> valid h ?i'" "?i' \<noteq> i" "\<not> valid h (field ?h' ?i' sec)"
    unfolding fs using assms(2) by (auto simp: valid_def)
  have old: "take (length h) ?h' = h" by simp
  show ?thesis
    by (rule exI [of _ ?h'], rule exI [of _ ?i'])
       (intro conjI allI impI res old fresh sib sib2 new)
next
  case False
  let ?t = "field h i sec"
  let ?h' = "h @ [Obj [], Obj [(key, v)],
                  Obj (set_prop (own_props h i) sec (Ref (Suc (length h))))]"
  let ?i' = "Ref (Suc (Suc (length h)))"
  have res: "updateSection sec h i key v = Inr (?h', ?i')"
    using False by (simp add: updateSection_result [OF assms])
  have fs: "field ?h' ?i' sec = Ref (Suc (length h))"
    by (simp add: field_new3 prop_value_set_prop)
  have sib: "field ?h' ?i' k = field h i k" if "k \<noteq> sec" for k
    using that by (simp add: field_new3 prop_value_set_prop) (simp add: field_def)
  have sib2: "field ?h' (field ?h' ?i' sec) k = field h ?t k" if "k \<noteq> key" for k
    unfolding fs using that False
    by (simp add: field_mid3 field_falsy prop_value_def)
  have new: "field ?h' (field ?h' ?i' sec) key = v"
    unfolding fs by (simp add: field_mid3 prop_value_def)
  have fresh: "\<not> valid h ?i'" "?i' \<noteq> i" "\<not> valid h (field ?h' ?i' sec)"
    unfolding fs using assms(2) by (auto simp: valid_def)
  have old: "take (length h) ?h' = h" by simp
  show ?thesis
    by (rule exI [of _ ?h'], rule exI [of _ ?i'])
       (intro conjI allI impI res old fresh sib sib2 new)
qed

text \<open>
  Claim C5. Let the intent be an object of the store (the editor is rendered for a
  truthy intent only). \<open>updateTask\<close> and \<open>updatePreprocessing\<close> then return a store and
  an intent such that: every cell of the old store is still there unchanged, so the
  old intent reads as before; the new intent is a reference allocated by the update,
  hence different from the old one; every field of the new intent other than the
  section has the value it had, references included; the section of the new intent is
  again a newly allocated object, in which every field other than \<open>key\<close> has the value
  it had in the old section and \<open>key\<close> has the new value.
\<close>

theorem field_update_copy_on_write:
  assumes "truthy i" and "valid h i"
  shows "(\<exists>h' i'. updateTask h i key v = Inr (h', i')
     \<and> take (length h) h' = h
     \<and> \<not> valid h i' \<and> i' \<noteq> i
     \<and> (\<forall>k. k \<noteq> ''task'' \<longrightarrow> field h' i' k = field h i k)
     \<and> \<not> valid h (field h' i' ''task'')
     \<and> (\<forall>k. k \<noteq> key \<longrightarrow>
           field h' (field h' i' ''task'') k = field h (field h i ''task'') k)
     \<and> field h' (field h' i' ''task'') key = v)
   \<and> (\<exists>h' i'. updatePreprocessing h i key v = Inr (h', i')
     \<and> take (length h) h' = h
     \<and> \<not> valid h i' \<and> i' \<noteq> i
     \<and> (\<forall>k. k \<noteq> ''preprocessing'' \<longrightarrow> field h' i' k = field h i k)
     \<and> \<not> valid h (field h' i' ''preprocessing'')
     \<and> (\<forall>k. k \<noteq> key \<longrightarrow>
           field h' (field h' i' ''preprocessing'') k = field h (field h i ''preprocessing'') k)
     \<and> field h' (field h' i' ''preprocessing'') key = v)"
  unfolding updateTask_def updatePreprocessing_def
  by (intro conjI updateSection_copy_on_write assms)

text \<open>
  On the example intent, setting \<open>task.metric\<close> gives a new intent with the same
  preprocessing object and the same task type.
\<close>

theorem field_update_copy_on_write_witness:
  "truthy demo_intent \<and> valid demo_heap demo_intent
   \<and> (\<exists>h' i'. updateTask demo_heap demo_intent ''metric'' (Str ''f1'') = Inr (h', i')
         \<and> i' \<noteq> demo_intent
         \<and> field h' i' ''preprocessing'' = Ref 1
         \<and> field h' (field h' i' ''task'') ''type'' = Str ''classification''
         \<and> field h' (field h' i' ''task'') ''metric'' = Str ''f1''
         \<and> field h' demo_intent ''task'' = Ref 0
         \<and> field h' (Ref 0) ''metric'' = Str ''accuracy'')"
proof -
  have a: "truthy demo_intent" by (simp add: demo_intent_def truthy_def)
  have b: "valid demo_heap demo_intent" by (simp add: demo_intent_def valid_def demo_heap_def)
  have c: "field demo_heap demo_intent ''preprocessing'' = Ref 1"
    by code_simp
  have d: "field demo_heap (field demo_heap demo_intent ''task'') ''type'' = Str ''classification''"
    by code_simp
  have e: "field demo_heap demo_intent ''task'' = Ref 0"
    "field demo_heap (Ref 0) ''metric'' = Str ''accuracy''"
    by code_simp+
  have v0: "valid demo_heap (Ref 0)" by (simp add: valid_def demo_heap_def)
  from conjunct1 [OF field_update_copy_on_write [OF a b, of "''metric''" "Str ''f1''"]]
  obtain h' i' where res: "updateTask demo_heap demo_intent ''metric'' (Str ''f1'') = Inr (h', i')"
    and old: "take (length demo_heap) h' = demo_heap"
    and ne: "i' \<noteq> demo_intent"
    and sib: "\<forall>k. k \<noteq> ''task'' \<longrightarrow> field h' i' k = field demo_heap demo_intent k"
    and sib2: "\<forall>k. k \<noteq> ''metric'' \<longrightarrow>
           field h' (field h' i' ''task'') k = field demo_heap (field demo_heap demo_intent ''task'') k"
    and new: "field h' (field h' i' ''task'') ''metric'' = Str ''f1''"
    by blast
  from old have h': "h' = demo_heap @ drop (length demo_heap) h'"
    by (metis append_take_drop_id)
  have f1: "field h' i' ''preprocessing'' = Ref 1" using sib c by simp
  have f2: "field h' (field h' i' ''task'') ''type'' = Str ''classification''"
    using sib2 d by simp
  have f3: "field h' demo_intent ''task'' = Ref 0"
    using field_append [OF b, of "drop (length demo_heap) h'" "''task''"] h' e(1) by simp
  have f4: "field h' (Ref 0) ''metric'' = Str ''accuracy''"
    using field_append [OF v0, of "drop (length demo_heap) h'" "''metric''"] h' e(2) by simp
  show ?thesis
    by (intro conjI a b exI [of _ h'] exI [of _ i'] res ne f1 f2 new f3 f4)
qed

section \<open>The model toggle of the editor\<close>















lemma cell_at_append: "cell_at h a = Some c \<Longrightarrow> cell_at (h @ cs) a = Some c"
  by (simp add: cell_at_def nth_append split: if_splits)




text \<open>
  The uniqueness of names is needed for the double toggle: each toggle removes one
  entry only, so of two entries \<open>svm\<close> one is left after the first toggle and none
  after the second.
\<close>

lemma toggle_twice_duplicate_names:
  "model_names dup_heap dup_intent = [Str ''svm'', Str ''svm'']
   \<and> names_after (toggleModel dup_heap dup_intent ''svm'') = Some [Str ''svm'']
   \<and> names_after (toggle_twice dup_heap dup_intent ''svm'') = Some []
   \<and> set [] \<noteq> set (model_names dup_heap dup_intent)"
  by code_simp





end
